theory Spec2Isabelle
  imports Complex_Main "HOL-Library.Char_ord" "HOL-Library.List_Lexorder"
begin

section \<open>Study program recommender: the service of backend/app/main.py\<close>

text \<open>
  The service is a set of request handlers over a managed datastore (four tables) and one
  process-wide recommender engine object. The handlers are embedded as functions that take
  the state of the tables and of the engine and return the outcome of the request together
  with the new state. A Python exception is a value \<open>Inl e\<close> of the outcome.

  The datastore is an in-memory list of rows per table, in insertion order; a query on
  it always answers (transport failures of the datastore are outside the model).
\<close>

subsection \<open>Exceptions\<close>

datatype exn =
    HTTPException (status_code: nat) (detail: string)
  | KeyError string
  | ValidationError string
  | ConflictError string
  | InvalidArgumentError string

text \<open>\<open>str(e)\<close>: the message of an exception; a \<open>KeyError\<close> prints its key quoted.\<close>

fun str :: "exn \<Rightarrow> string" where
  "str (HTTPException c d) = d"
| "str (KeyError k) = CHR 0x27 # k @ [CHR 0x27]"
| "str (ValidationError m) = m"
| "str (ConflictError m) = m"
| "str (InvalidArgumentError m) = m"

text \<open>
  Every handler ends with
  \<^verbatim>\<open>except HTTPException: raise\<close> and
  \<^verbatim>\<open>except Exception as e: raise HTTPException(status_code=500, detail=str(e))\<close>.
\<close>

fun reraise :: "exn + 'a \<Rightarrow> exn + 'a" where
  "reraise (Inr v) = Inr v"
| "reraise (Inl (HTTPException c d)) = Inl (HTTPException c d)"
| "reraise (Inl e) = Inl (HTTPException 500 (str e))"

subsection \<open>Rows and request bodies\<close>

text \<open>A row of the table \<open>students\<close>.\<close>

record student_row =
  st_id :: string
  st_name :: string
  st_email :: string
  st_interests :: "string list"
  st_grades :: "(string \<times> real) list"

text \<open>
  A program is a dictionary; the handlers read its keys with \<open>program['id']\<close>, which raises
  \<open>KeyError\<close> on a missing key, and with \<open>program.get('tags', [])\<close>, which does not. A key that
  is absent is \<open>None\<close>.
\<close>

record program =
  p_id :: "string option"
  p_name :: "string option"
  p_description :: "string option"
  p_tags :: "string list option"
  p_skills :: "string list option"

text \<open>The dictionary \<open>rec_data\<close> inserted into the table \<open>recommendations\<close>.\<close>

record recommendation_row =
  rr_student_id :: string
  rr_program_id :: string
  rr_score :: real
  rr_explanation :: string
  rr_algorithm :: string

text \<open>The dictionary \<open>feedback_data\<close>; the key \<open>rating\<close> is set only when a rating is given.\<close>

record feedback_row =
  fb_student_id :: string
  fb_program_id :: string
  fb_clicked :: bool
  fb_accepted :: bool
  fb_rating :: "int option"

text \<open>The request and response models of app.models, by the fields the handlers use.\<close>

record StudentProfile =
  name :: string
  email :: string
  interests :: "string list"
  grades :: "(string \<times> real) list"

record RecommendationRequest =
  student_id :: string
  top_k :: int

record FeedbackSubmit =
  program_id :: string
  clicked :: bool
  accepted :: bool
  rating :: "int option"

record Recommendation =
  rec_program_id :: string
  rec_program_name :: string
  rec_program_description :: string
  rec_score :: real
  rec_explanation :: string
  rec_tags :: "string list"
  rec_skills :: "string list"

subsection \<open>State: the tables and the engine object\<close>

text \<open>
  \<open>engine\<close> is the state of the module-level object \<open>recommender_engine\<close>: what its last
  \<open>fit\<close> left behind.
\<close>

record 'e state =
  students :: "student_row list"
  programs :: "program list"
  recommendations :: "recommendation_row list"
  feedback :: "feedback_row list"
  engine :: 'e

text \<open>\<open>supabase.table(t).select("*").eq(column, v).execute().data\<close>\<close>

definition select_eq :: "('r \<Rightarrow> 'v) \<Rightarrow> 'v \<Rightarrow> 'r list \<Rightarrow> 'r list" where
  "select_eq column v rows = filter (\<lambda>r. column r = v) rows"

subsection \<open>POST /students\<close>

text \<open>
  \<open>new_id\<close> is the identifier the datastore gives the inserted row; \<open>result.data[0]\<close> is the
  inserted row.
\<close>

definition create_student ::
  "string \<Rightarrow> StudentProfile \<Rightarrow> 'e state \<Rightarrow> (exn + student_row) \<times> 'e state" where
  "create_student new_id student s =
     (let existing = select_eq st_email (email student) (students s) in
      if existing \<noteq> [] then
        (reraise (Inl (HTTPException 400 ''Student with this email already exists'')), s)
      else
        let row = \<lparr>st_id = new_id, st_name = name student, st_email = email student,
                   st_interests = interests student, st_grades = grades student\<rparr>
        in (reraise (Inr row), s\<lparr>students := students s @ [row]\<rparr>))"

subsection \<open>POST /feedback\<close>

definition submit_feedback ::
  "string \<Rightarrow> FeedbackSubmit \<Rightarrow> 'e state \<Rightarrow> (exn + feedback_row) \<times> 'e state" where
  "submit_feedback sid fb s =
     (let feedback_data = \<lparr>fb_student_id = sid, fb_program_id = program_id fb,
                            fb_clicked = clicked fb, fb_accepted = accepted fb,
                            fb_rating = None\<rparr>
      in case rating fb of
           Some r \<Rightarrow>
             if r < 1 \<or> r > 5 then
               (reraise (Inl (HTTPException 400 ''Rating must be between 1 and 5'')), s)
             else
               let row = feedback_data\<lparr>fb_rating := Some r\<rparr>
               in (reraise (Inr row), s\<lparr>feedback := feedback s @ [row]\<rparr>)
         | None \<Rightarrow>
             (reraise (Inr feedback_data), s\<lparr>feedback := feedback s @ [feedback_data]\<rparr>))"

subsection \<open>POST /recommendations\<close>

text \<open>
  Modelled from the spec: the engine of app.recommender, which is not among the sources, is
  a parameter of the handler. \<open>fit_op\<close> builds from the programs alone the index that
  \<open>recommender_engine.fit(programs)\<close> leaves in the engine (the index is replaced wholesale,
  there is no incremental update), or raises and leaves the engine as it was.
  \<open>recommend_op\<close> reads the index the engine holds and answers with
  (program, score, explanation) triples, or raises.
\<close>

type_synonym scored = "program \<times> real \<times> string"

definition engine_fit ::
  "(program list \<Rightarrow> exn + 'e) \<Rightarrow> program list \<Rightarrow> 'e state \<Rightarrow> (exn + unit) \<times> 'e state" where
  "engine_fit fit_op ps s =
     (case fit_op ps of Inl e \<Rightarrow> (Inl e, s) | Inr i \<Rightarrow> (Inr (), s\<lparr>engine := i\<rparr>))"

definition engine_recommend ::
  "('e \<Rightarrow> student_row \<Rightarrow> int \<Rightarrow> exn + scored list) \<Rightarrow> student_row \<Rightarrow> int \<Rightarrow> 'e state
     \<Rightarrow> exn + scored list" where
  "engine_recommend recommend_op student_data k s = recommend_op (engine s) student_data k"

text \<open>
  The loop over the triples: each turn builds \<open>rec_data\<close>, inserts it, then builds the
  \<open>Recommendation\<close> and appends it to the response. A missing key stops the loop with the rows
  inserted so far left in the table.
\<close>

fun respond ::
  "string \<Rightarrow> scored list \<Rightarrow> Recommendation list \<Rightarrow> 'e state
     \<Rightarrow> (exn + Recommendation list) \<times> 'e state" where
  "respond sid [] response_recommendations s = (Inr response_recommendations, s)"
| "respond sid ((program, score, explanation) # rest) response_recommendations s =
     (case p_id program of
        None \<Rightarrow> (Inl (KeyError ''id''), s)
      | Some pid \<Rightarrow>
          let rec_data = \<lparr>rr_student_id = sid, rr_program_id = pid, rr_score = score,
                            rr_explanation = explanation, rr_algorithm = ''content-based''\<rparr>;
              s1 = s\<lparr>recommendations := recommendations s @ [rec_data]\<rparr>
          in (case p_name program of
               None \<Rightarrow> (Inl (KeyError ''name''), s1)
             | Some pname \<Rightarrow>
                 (case p_description program of
                    None \<Rightarrow> (Inl (KeyError ''description''), s1)
                  | Some pdesc \<Rightarrow>
                      respond sid rest
                        (response_recommendations @
                          [\<lparr>rec_program_id = pid, rec_program_name = pname,
                            rec_program_description = pdesc, rec_score = score,
                            rec_explanation = explanation,
                            rec_tags = (case p_tags program of None \<Rightarrow> [] | Some t \<Rightarrow> t),
                            rec_skills = (case p_skills program of None \<Rightarrow> [] | Some k \<Rightarrow> k)\<rparr>])
                        s1)))"

definition get_recommendations_body ::
  "(program list \<Rightarrow> exn + 'e) \<Rightarrow> ('e \<Rightarrow> student_row \<Rightarrow> int \<Rightarrow> exn + scored list)
     \<Rightarrow> RecommendationRequest \<Rightarrow> 'e state \<Rightarrow> (exn + Recommendation list) \<times> 'e state" where
  "get_recommendations_body fit_op recommend_op request s =
     (case select_eq st_id (student_id request) (students s) of
        [] \<Rightarrow> (Inl (HTTPException 404 ''Student not found''), s)
      | student_data # _ \<Rightarrow>
          if programs s = [] then (Inr [], s)
          else
            (case engine_fit fit_op (programs s) s of
               (Inl e, s1) \<Rightarrow> (Inl e, s1)
             | (Inr _, s1) \<Rightarrow>
                 (case engine_recommend recommend_op student_data (top_k request) s1 of
                    Inl e \<Rightarrow> (Inl e, s1)
                  | Inr recs \<Rightarrow> respond (student_id request) recs [] s1)))"

definition get_recommendations ::
  "(program list \<Rightarrow> exn + 'e) \<Rightarrow> ('e \<Rightarrow> student_row \<Rightarrow> int \<Rightarrow> exn + scored list)
     \<Rightarrow> RecommendationRequest \<Rightarrow> 'e state \<Rightarrow> (exn + Recommendation list) \<times> 'e state" where
  "get_recommendations fit_op recommend_op request s =
     (case get_recommendations_body fit_op recommend_op request s of
        (r, s') \<Rightarrow> (reraise r, s'))"

section \<open>The recommendation engine of app.recommender\<close>

text \<open>
  The module app.recommender is used by the handlers and is not part of the sources at hand.
  Its two operations, \<open>fit\<close> and \<open>recommend\<close>, are modelled from the specification
  (Feature Indexer and Ranker). Weights and scores are real numbers; the rounding of
  floating-point arithmetic is not modelled.
\<close>

subsection \<open>Configuration\<close>

text \<open>
  Modelled from the spec: the configuration surface of the engine (stop-word set, weight
  multiplier of tags and skills relative to free text, grade-strength threshold, number of
  terms of an explanation).
\<close>

record config =
  stop_words :: "string list"
  tag_weight :: nat
  grade_threshold :: real
  explanation_terms :: nat

subsection \<open>Tokens and documents\<close>

definition is_alnum :: "char \<Rightarrow> bool" where
  "is_alnum c \<longleftrightarrow>
     (CHR ''a'' \<le> c \<and> c \<le> CHR ''z'') \<or> (CHR ''A'' \<le> c \<and> c \<le> CHR ''Z'')
       \<or> (CHR ''0'' \<le> c \<and> c \<le> CHR ''9'')"

text \<open>An upper-case letter becomes the lower-case one: bit 5 of its code is set.\<close>

definition lower :: "char \<Rightarrow> char" where
  "lower c =
     (if CHR ''A'' \<le> c \<and> c \<le> CHR ''Z''
      then (case c of Char b0 b1 b2 b3 b4 b5 b6 b7 \<Rightarrow> Char b0 b1 b2 b3 b4 True b6 b7)
      else c)"

text \<open>Splitting at every character that is not alphanumeric; \<open>cur\<close> is the token being read.\<close>

fun split_alnum :: "string \<Rightarrow> string \<Rightarrow> string list" where
  "split_alnum cur [] = (if cur = [] then [] else [cur])"
| "split_alnum cur (c # cs) =
     (if is_alnum c then split_alnum (cur @ [c]) cs
      else (if cur = [] then [] else [cur]) @ split_alnum [] cs)"

text \<open>
  Modelled from the spec: tokenize by lower-casing and splitting on non-alphanumeric
  boundaries; discard a fixed stop-word set.
\<close>

definition tokenize :: "config \<Rightarrow> string \<Rightarrow> string list" where
  "tokenize cfg text = filter (\<lambda>t. t \<notin> set (stop_words cfg)) (split_alnum [] (map lower text))"

text \<open>
  Modelled from the spec: a categorical signal (tag, skill, interest, strong subject) is a
  token repeated \<open>tag_weight\<close> times.
\<close>

definition categorical :: "config \<Rightarrow> string list \<Rightarrow> string list" where
  "categorical cfg labels =
     concat (map (\<lambda>l. concat (replicate (tag_weight cfg) (tokenize cfg l))) labels)"

text \<open>
  Modelled from the spec: the document of a program is the concatenation of its description,
  tags and skills. An absent key contributes nothing.
\<close>

definition program_document :: "config \<Rightarrow> program \<Rightarrow> string list" where
  "program_document cfg p =
     tokenize cfg (case p_description p of None \<Rightarrow> [] | Some d \<Rightarrow> d)
       @ categorical cfg (case p_tags p of None \<Rightarrow> [] | Some t \<Rightarrow> t)
       @ categorical cfg (case p_skills p of None \<Rightarrow> [] | Some k \<Rightarrow> k)"

subsection \<open>Vectors\<close>

text \<open>
  Modelled from the spec: a FeatureVector maps a term to its weight; the vocabulary lists the
  dimensions. Norm and dot product range over the vocabulary.
\<close>

type_synonym feature_vector = "string \<Rightarrow> real"

definition term_frequency :: "string list \<Rightarrow> string \<Rightarrow> real" where
  "term_frequency doc t = real (count_list doc t)"

definition document_frequency :: "string list list \<Rightarrow> string \<Rightarrow> nat" where
  "document_frequency docs t = length (filter (\<lambda>d. t \<in> set d) docs)"

text \<open>Modelled from the spec: smoothed IDF, \<open>log((1 + N) / (1 + df)) + 1\<close>.\<close>

definition smoothed_idf :: "nat \<Rightarrow> nat \<Rightarrow> real" where
  "smoothed_idf n df = ln ((1 + real n) / (1 + real df)) + 1"

definition dot :: "string list \<Rightarrow> feature_vector \<Rightarrow> feature_vector \<Rightarrow> real" where
  "dot vocab u v = sum_list (map (\<lambda>t. u t * v t) vocab)"

definition l2_norm :: "string list \<Rightarrow> feature_vector \<Rightarrow> real" where
  "l2_norm vocab v = sqrt (dot vocab v v)"

text \<open>Unit L2 norm; the all-zero vector stays as it is.\<close>

definition normalize :: "string list \<Rightarrow> feature_vector \<Rightarrow> feature_vector" where
  "normalize vocab v = (if l2_norm vocab v = 0 then v else (\<lambda>t. v t / l2_norm vocab v))"

text \<open>
  Term frequency scaled by IDF, on the terms of the vocabulary only: a term that is not in
  the vocabulary contributes zero.
\<close>

definition tf_idf :: "string list \<Rightarrow> (string \<Rightarrow> real) \<Rightarrow> string list \<Rightarrow> feature_vector" where
  "tf_idf vocab idf doc = (\<lambda>t. if t \<in> set vocab then term_frequency doc t * idf t else 0)"

subsection \<open>Feature Indexer: fit\<close>

text \<open>
  Modelled from the spec: the FittedIndex holds the vocabulary, the IDF weight of each term
  and the vector of each program, keyed by the identifier of the program.
\<close>

record fitted_index =
  vocabulary :: "string list"
  idf_weights :: "string \<Rightarrow> real"
  vectors :: "(string \<times> program \<times> feature_vector) list"

text \<open>
  Modelled from the spec: a record without identifier is rejected with a ValidationError;
  the later of two records with one identifier signals a ConflictError. The records are
  read in order; \<open>seen\<close> holds the identifiers read so far.
\<close>

fun keyed :: "string list \<Rightarrow> program list \<Rightarrow> exn + (string \<times> program) list" where
  "keyed seen [] = Inr []"
| "keyed seen (p # ps) =
     (case p_id p of
        None \<Rightarrow> Inl (ValidationError ''program record without identifier'')
      | Some i \<Rightarrow>
          if i \<in> set seen then Inl (ConflictError (''duplicate program identifier '' @ i))
          else (case keyed (i # seen) ps of
                  Inl e \<Rightarrow> Inl e
                | Inr rest \<Rightarrow> Inr ((i, p) # rest)))"

definition build_index :: "config \<Rightarrow> (string \<times> program) list \<Rightarrow> fitted_index" where
  "build_index cfg kps =
     (let docs = map (\<lambda>(i, p). program_document cfg p) kps;
          vocab = remdups (concat docs);
          idf = (\<lambda>t. smoothed_idf (length kps) (document_frequency docs t))
      in \<lparr>vocabulary = vocab, idf_weights = idf,
          vectors = map (\<lambda>(i, p). (i, p, normalize vocab (tf_idf vocab idf (program_document cfg p))))
                      kps\<rparr>)"

text \<open>Modelled from the spec: \<open>fit(programs) -> FittedIndex\<close>; an empty sequence is accepted.\<close>

definition fit :: "config \<Rightarrow> program list \<Rightarrow> exn + fitted_index" where
  "fit cfg ps = (case keyed [] ps of Inl e \<Rightarrow> Inl e | Inr kps \<Rightarrow> Inr (build_index cfg kps))"

subsection \<open>Ranker: recommend\<close>

text \<open>
  Modelled from the spec: subjects with a grade above the threshold are the strong subjects
  of the student.
\<close>

definition strong_subjects :: "config \<Rightarrow> student_row \<Rightarrow> string list" where
  "strong_subjects cfg st = map fst (filter (\<lambda>(subject, g). g > grade_threshold cfg) (st_grades st))"

definition student_document :: "config \<Rightarrow> student_row \<Rightarrow> string list" where
  "student_document cfg st =
     categorical cfg (st_interests st) @ categorical cfg (strong_subjects cfg st)"

text \<open>
  Modelled from the spec: the student is projected with the IDF table of the index and
  normalized to unit L2 norm.
\<close>

definition student_vector :: "config \<Rightarrow> fitted_index \<Rightarrow> student_row \<Rightarrow> feature_vector" where
  "student_vector cfg idx st =
     normalize (vocabulary idx)
       (tf_idf (vocabulary idx) (idf_weights idx) (student_document cfg st))"

text \<open>Insertion sort by an order given as a function.\<close>

fun insert_by :: "('a \<Rightarrow> 'a \<Rightarrow> bool) \<Rightarrow> 'a \<Rightarrow> 'a list \<Rightarrow> 'a list" where
  "insert_by before x [] = [x]"
| "insert_by before x (y # ys) =
     (if before x y then x # y # ys else y # insert_by before x ys)"

definition sort_by :: "('a \<Rightarrow> 'a \<Rightarrow> bool) \<Rightarrow> 'a list \<Rightarrow> 'a list" where
  "sort_by before xs = foldr (insert_by before) xs []"

text \<open>
  Modelled from the spec: the terms of an explanation are the terms present in both vectors
  with the largest product of weights, up to a fixed count.
\<close>

definition shared_terms ::
  "config \<Rightarrow> string list \<Rightarrow> feature_vector \<Rightarrow> feature_vector \<Rightarrow> string list" where
  "shared_terms cfg vocab sv pv =
     take (explanation_terms cfg)
       (sort_by (\<lambda>a b. sv a * pv a \<ge> sv b * pv b)
          (filter (\<lambda>t. sv t * pv t > 0) vocab))"

fun join :: "string \<Rightarrow> string list \<Rightarrow> string" where
  "join sep [] = []"
| "join sep [x] = x"
| "join sep (x # y # ys) = x @ sep @ join sep (y # ys)"

text \<open>
  Modelled from the spec: the rationale tells a matched interest from a matched strong
  subject; without any shared term it says so.
\<close>

definition explain ::
  "config \<Rightarrow> fitted_index \<Rightarrow> student_row \<Rightarrow> feature_vector \<Rightarrow> feature_vector \<Rightarrow> string" where
  "explain cfg idx st sv pv =
     (let terms = shared_terms cfg (vocabulary idx) sv pv in
      if dot (vocabulary idx) sv sv = 0 then ''no matching signal''
      else if terms = [] then ''no shared terms: default ordering''
      else join ''; ''
             (map (\<lambda>t. if t \<in> set (categorical cfg (st_interests st))
                        then ''Matches your interest in '' @ t
                        else ''aligns with your strength in '' @ t) terms))"

text \<open>Modelled from the spec: the score is the dot product of the two unit vectors.\<close>

definition score_all ::
  "config \<Rightarrow> fitted_index \<Rightarrow> student_row \<Rightarrow> (string \<times> scored) list" where
  "score_all cfg idx st =
     (let sv = student_vector cfg idx st in
      map (\<lambda>(i, p, pv). (i, p, dot (vocabulary idx) sv pv, explain cfg idx st sv pv))
        (vectors idx))"

text \<open>
  Modelled from the spec: descending by score; ties by ascending program identifier
  (lexical).
\<close>

definition ranks_before :: "string \<times> scored \<Rightarrow> string \<times> scored \<Rightarrow> bool" where
  "ranks_before a b \<longleftrightarrow>
     fst (snd (snd a)) > fst (snd (snd b))
       \<or> (fst (snd (snd a)) = fst (snd (snd b)) \<and> fst a \<le> fst b)"

text \<open>
  Modelled from the spec: \<open>recommend(index, student, top_k)\<close>; \<open>top_k\<close> must be at least 1,
  values \<open>\<le> 0\<close> signal an InvalidArgumentError; the ranking is truncated to \<open>top_k\<close>.
\<close>

definition recommend :: "config \<Rightarrow> fitted_index \<Rightarrow> student_row \<Rightarrow> int \<Rightarrow> exn + scored list" where
  "recommend cfg idx st k =
     (if k \<le> 0 then Inl (InvalidArgumentError ''top_k must be at least 1'')
      else Inr (map snd (take (nat k) (sort_by ranks_before (score_all cfg idx st)))))"


section \<open>Properties\<close>

subsection \<open>What a response entry and a persisted row carry\<close>

text \<open>
  A response entry carries a triple of the engine when it holds the identifier, name and
  description of the program, its tags and skills (empty when the program has none), the
  score and the explanation.
\<close>

definition carries :: "scored \<Rightarrow> Recommendation \<Rightarrow> bool" where
  "carries t r \<longleftrightarrow>
     (case t of (p, sc, ex) \<Rightarrow>
        p_id p = Some (rec_program_id r) \<and> p_name p = Some (rec_program_name r)
        \<and> p_description p = Some (rec_program_description r)
        \<and> rec_tags r = (case p_tags p of None \<Rightarrow> [] | Some t \<Rightarrow> t)
        \<and> rec_skills r = (case p_skills p of None \<Rightarrow> [] | Some k \<Rightarrow> k)
        \<and> rec_score r = sc \<and> rec_explanation r = ex)"

text \<open>The row of the table \<open>recommendations\<close> that belongs to a response entry.\<close>

definition rec_data_of :: "string \<Rightarrow> Recommendation \<Rightarrow> recommendation_row" where
  "rec_data_of sid r =
     \<lparr>rr_student_id = sid, rr_program_id = rec_program_id r, rr_score = rec_score r,
      rr_explanation = rec_explanation r, rr_algorithm = ''content-based''\<rparr>"

subsection \<open>A small catalog, a student and a state\<close>

definition cfg1 :: config where
  "cfg1 = \<lparr>stop_words = [''the'', ''a'', ''of''], tag_weight = 1, grade_threshold = 90,
            explanation_terms = 5\<rparr>"

definition prog1 :: program where
  "prog1 = \<lparr>p_id = Some ''p1'', p_name = Some ''Data'', p_description = Some ''The data'',
             p_tags = Some [''Data''], p_skills = None\<rparr>"

definition prog2 :: program where
  "prog2 = \<lparr>p_id = Some ''p2'', p_name = Some ''Arts'', p_description = Some ''visual arts'',
             p_tags = Some [''art'', ''design''], p_skills = Some [''drawing'']\<rparr>"

definition stu1 :: student_row where
  "stu1 = \<lparr>st_id = ''s1'', st_name = ''Ann'', st_email = ''ann@example.org'',
            st_interests = [''data''], st_grades = [(''math'', 95)]\<rparr>"

text \<open>The index of the one-program catalog, and the entry and row of its only result.\<close>

definition index1 :: fitted_index where
  "index1 = build_index cfg1 [(''p1'', prog1)]"

definition entry1 :: Recommendation where
  "entry1 = \<lparr>rec_program_id = ''p1'', rec_program_name = ''Data'',
              rec_program_description = ''The data'', rec_score = 1,
              rec_explanation = ''Matches your interest in data'',
              rec_tags = [''Data''], rec_skills = []\<rparr>"

text \<open>
  One student, the one-program catalog, and an engine that still holds the index of an
  empty catalog.
\<close>

definition state1 :: "fitted_index state" where
  "state1 = \<lparr>students = [stu1], programs = [prog1], recommendations = [], feedback = [],
              engine = build_index cfg1 []\<rparr>"

definition request1 :: RecommendationRequest where
  "request1 = \<lparr>student_id = ''s1'', top_k = 3\<rparr>"

text \<open>The same student with an empty catalog, and a request with \<open>top_k = 0\<close>.\<close>

definition state0 :: "fitted_index state" where
  "state0 = \<lparr>students = [stu1], programs = [], recommendations = [], feedback = [],
              engine = index1\<rparr>"

definition request0 :: RecommendationRequest where
  "request0 = \<lparr>student_id = ''s1'', top_k = 0\<rparr>"

definition feedback6 :: FeedbackSubmit where
  "feedback6 = \<lparr>program_id = ''p1'', clicked = True, accepted = False, rating = Some 6\<rparr>"

definition profile1 :: StudentProfile where
  "profile1 = \<lparr>name = ''Ann B'', email = ''ann@example.org'', interests = [''art''],
                grades = []\<rparr>"

section \<open>Proofs\<close>

subsection \<open>The handlers\<close>

lemma reraise_Inr: "reraise r = Inr v \<longleftrightarrow> r = Inr v"
  by (cases r rule: reraise.cases) auto

text \<open>
  A loop that ends without exception has appended one entry per triple and inserted one row
  per entry, in order, and has changed nothing else.
\<close>

lemma respond_ok:
  "respond sid recs acc s = (Inr response, s') \<Longrightarrow>
     \<exists>new. response = acc @ new \<and> list_all2 carries recs new
       \<and> s' = s\<lparr>recommendations := recommendations s @ map (rec_data_of sid) new\<rparr>"
proof (induction recs arbitrary: acc s)
  case Nil
  then show ?case by simp
next
  case (Cons t recs)
  obtain p sc ex where t: "t = (p, sc, ex)" by (cases t) auto
  from Cons.prems t obtain pid pname pdesc where
    f: "p_id p = Some pid" "p_name p = Some pname" "p_description p = Some pdesc"
    by (auto split: option.splits simp: Let_def)
  let ?r = "\<lparr>rec_program_id = pid, rec_program_name = pname,
             rec_program_description = pdesc, rec_score = sc, rec_explanation = ex,
             rec_tags = (case p_tags p of None \<Rightarrow> [] | Some t \<Rightarrow> t),
             rec_skills = (case p_skills p of None \<Rightarrow> [] | Some k \<Rightarrow> k)\<rparr>"
  let ?s1 = "s\<lparr>recommendations := recommendations s @ [rec_data_of sid ?r]\<rparr>"
  from Cons.prems t f have "respond sid recs (acc @ [?r]) ?s1 = (Inr response, s')"
    by (simp add: Let_def rec_data_of_def)
  from Cons.IH [OF this] obtain new where
    n: "response = (acc @ [?r]) @ new" "list_all2 carries recs new"
       "s' = ?s1\<lparr>recommendations := recommendations ?s1 @ map (rec_data_of sid) new\<rparr>"
    by blast
  have "carries t ?r" using t f by (simp add: carries_def)
  with n show ?case
    by (intro exI [of _ "?r # new"]) simp
qed

text \<open>The loop neither reads nor writes the engine.\<close>

lemma respond_engine_irrelevant:
  "fst (respond sid recs acc (s\<lparr>engine := e\<rparr>)) = fst (respond sid recs acc s)
   \<and> snd (respond sid recs acc (s\<lparr>engine := e\<rparr>)) = (snd (respond sid recs acc s))\<lparr>engine := e\<rparr>"
proof (induction recs arbitrary: acc s)
  case Nil
  then show ?case by simp
next
  case (Cons t recs)
  obtain p sc ex where t: "t = (p, sc, ex)" by (cases t) auto
  show ?case
  proof (cases "p_id p")
    case None
    then show ?thesis by (simp add: t)
  next
    case (Some pid)
    note pid = Some
    let ?s1 = "s\<lparr>recommendations := recommendations s @
        [\<lparr>rr_student_id = sid, rr_program_id = pid, rr_score = sc,
          rr_explanation = ex, rr_algorithm = ''content-based''\<rparr>]\<rparr>"
    show ?thesis
    proof (cases "p_name p")
      case None
      then show ?thesis by (simp add: t pid Let_def)
    next
      case (Some pname)
      note pname = Some
      show ?thesis
      proof (cases "p_description p")
        case None
        then show ?thesis by (simp add: t pid pname Let_def)
      next
        case (Some pdesc)
        let ?acc = "acc @ [\<lparr>rec_program_id = pid, rec_program_name = pname,
             rec_program_description = pdesc, rec_score = sc, rec_explanation = ex,
             rec_tags = (case p_tags p of None \<Rightarrow> [] | Some t \<Rightarrow> t),
             rec_skills = (case p_skills p of None \<Rightarrow> [] | Some k \<Rightarrow> k)\<rparr>]"
        have comm: "(s\<lparr>engine := e\<rparr>)\<lparr>recommendations := X\<rparr>
            = (s\<lparr>recommendations := X\<rparr>)\<lparr>engine := e\<rparr>" for X
          by simp
        have step: "respond sid (t # recs) acc s' = respond sid recs ?acc
            (s'\<lparr>recommendations := recommendations s' @
              [\<lparr>rr_student_id = sid, rr_program_id = pid, rr_score = sc,
                rr_explanation = ex, rr_algorithm = ''content-based''\<rparr>]\<rparr>)" for s' :: "'a state"
          by (simp add: t pid pname Some Let_def)
        have sel: "recommendations (s\<lparr>engine := e\<rparr>) = recommendations s"
          by simp
        show ?thesis
          unfolding step using Cons.IH [of ?acc ?s1] by (simp only: comm sel)
      qed
    qed
  qed
qed

text \<open>The path of a request that reaches the engine.\<close>

lemma get_recommendations_scoring:
  assumes "select_eq st_id (student_id request) (students s) = student_data # others"
    and "programs s \<noteq> []" and "fit_op (programs s) = Inr idx"
  shows "get_recommendations fit_op recommend_op request s =
     (case recommend_op idx student_data (top_k request) of
        Inl e \<Rightarrow> (reraise (Inl e), s\<lparr>engine := idx\<rparr>)
      | Inr recs \<Rightarrow>
          (reraise (fst (respond (student_id request) recs [] (s\<lparr>engine := idx\<rparr>))),
           snd (respond (student_id request) recs [] (s\<lparr>engine := idx\<rparr>))))"
  using assms
  by (simp add: get_recommendations_def get_recommendations_body_def engine_fit_def
      engine_recommend_def split: sum.splits prod.splits)

lemma get_recommendations_ok:
  assumes "get_recommendations fit_op recommend_op request s = (Inr response, s')"
  shows "(programs s = [] \<and> response = [] \<and> s' = s)
    \<or> (\<exists>idx recs. programs s \<noteq> [] \<and> fit_op (programs s) = Inr idx
          \<and> recommend_op idx (hd (select_eq st_id (student_id request) (students s)))
                (top_k request) = Inr recs
          \<and> respond (student_id request) recs [] (s\<lparr>engine := idx\<rparr>) = (Inr response, s'))"
  using assms
  by (auto simp: get_recommendations_def get_recommendations_body_def engine_fit_def
      engine_recommend_def reraise_Inr split: list.splits sum.splits prod.splits if_splits)

text \<open>
  An exception of the engine leaves the handler as an HTTP 500 with the message of the
  exception; no row has been inserted then.
\<close>

lemma get_recommendations_engine_error:
  assumes "select_eq st_id (student_id request) (students s) = student_data # others"
    and "programs s \<noteq> []" and "fit_op (programs s) = Inr idx"
    and "recommend_op idx student_data (top_k request) = Inl (InvalidArgumentError m)"
  shows "get_recommendations fit_op recommend_op request s
           = (Inl (HTTPException 500 m), s\<lparr>engine := idx\<rparr>)"
  unfolding get_recommendations_scoring
    [where fit_op = fit_op and recommend_op = recommend_op, OF assms(1,2,3)]
  by (simp add: assms(4))

subsection \<open>Sorting\<close>

lemma length_insert_by: "length (insert_by before x xs) = Suc (length xs)"
  by (induction xs) auto

lemma length_sort_by: "length (sort_by before xs) = length xs"
  unfolding sort_by_def by (induction xs) (auto simp: length_insert_by)

lemma set_insert_by: "set (insert_by before x xs) = insert x (set xs)"
  by (induction xs) auto

lemma set_sort_by: "set (sort_by before xs) = set xs"
  unfolding sort_by_def by (induction xs) (auto simp: set_insert_by)

subsection \<open>The fitted index\<close>

lemma keyed_length: "keyed seen ps = Inr kps \<Longrightarrow> length kps = length ps"
  by (induction ps arbitrary: seen kps) (auto split: option.splits if_splits sum.splits)

lemma length_vectors_build_index: "length (vectors (build_index cfg kps)) = length kps"
  by (simp add: build_index_def Let_def)

lemma length_score_all: "length (score_all cfg idx st) = length (vectors idx)"
  by (simp add: score_all_def Let_def)

lemma keyed_conflict:
  assumes "list_all (\<lambda>q. p_id q \<noteq> None) pre" and "distinct (map p_id pre)"
    and "\<forall>j\<in>set seen. Some j \<notin> set (map p_id pre)"
    and "p_id p = Some i" and "i \<in> set seen \<or> Some i \<in> set (map p_id pre)"
  shows "keyed seen (pre @ p # rest)
           = Inl (ConflictError (''duplicate program identifier '' @ i))"
  using assms
proof (induction pre arbitrary: seen)
  case Nil
  then show ?case by simp
next
  case (Cons q pre)
  from Cons.prems(1) obtain j where j: "p_id q = Some j" by auto
  have "j \<notin> set seen" using Cons.prems(3) j by auto
  moreover have "keyed (j # seen) (pre @ p # rest)
      = Inl (ConflictError (''duplicate program identifier '' @ i))"
  proof (rule Cons.IH)
    show "list_all (\<lambda>q. p_id q \<noteq> None) pre" using Cons.prems(1) by simp
    show "distinct (map p_id pre)" using Cons.prems(2) by simp
    show "\<forall>j\<in>set (j # seen). Some j \<notin> set (map p_id pre)"
      using Cons.prems(2,3) j by auto
    show "p_id p = Some i" by fact
    show "i \<in> set (j # seen) \<or> Some i \<in> set (map p_id pre)"
      using Cons.prems(5) j by auto
  qed
  ultimately show ?case using j by simp
qed

subsection \<open>Unit vectors with non-negative weights\<close>

lemma dot_nonneg:
  "(\<And>t. 0 \<le> u t) \<Longrightarrow> (\<And>t. 0 \<le> v t) \<Longrightarrow> 0 \<le> dot vocab u v"
  unfolding dot_def by (induction vocab) auto

lemma dot_self_nonneg: "0 \<le> dot vocab v v"
  unfolding dot_def by (induction vocab) auto

lemma two_products: "(a::real) * b \<le> (a * a + b * b) / 2"
proof -
  have "0 \<le> (a - b) * (a - b)" by simp
  then show ?thesis by (simp add: algebra_simps)
qed

lemma dot_le_mean: "dot vocab u v \<le> (dot vocab u u + dot vocab v v) / 2"
proof (induction vocab)
  case Nil
  then show ?case by (simp add: dot_def)
next
  case (Cons t vocab)
  have "u t * v t \<le> (u t * u t + v t * v t) / 2" by (rule two_products)
  with Cons show ?case by (simp add: dot_def)
qed

lemma dot_scale: "dot vocab (\<lambda>t. v t / c) (\<lambda>t. v t / c) = dot vocab v v / (c * c)"
  unfolding dot_def by (induction vocab) (auto simp: add_divide_distrib)

lemma normalize_unit: "dot vocab (normalize vocab v) (normalize vocab v) \<le> 1"
proof (cases "l2_norm vocab v = 0")
  case True
  then have "dot vocab v v = 0" by (simp add: l2_norm_def)
  with True show ?thesis by (simp add: normalize_def)
next
  case False
  have "l2_norm vocab v * l2_norm vocab v = dot vocab v v"
    by (simp add: l2_norm_def dot_self_nonneg)
  moreover from False have "dot vocab v v \<noteq> 0" by (simp add: l2_norm_def)
  ultimately show ?thesis using False by (simp add: normalize_def dot_scale)
qed

lemma normalize_nonneg: "0 \<le> v t \<Longrightarrow> 0 \<le> normalize vocab v t"
proof -
  assume "0 \<le> v t"
  moreover have "0 \<le> l2_norm vocab v" by (simp add: l2_norm_def dot_self_nonneg)
  ultimately show ?thesis by (simp add: normalize_def)
qed

lemma document_frequency_le: "document_frequency docs t \<le> length docs"
  by (simp add: document_frequency_def)

lemma smoothed_idf_nonneg: "df \<le> n \<Longrightarrow> 0 \<le> smoothed_idf n df"
proof -
  assume "df \<le> n"
  then have "1 \<le> (1 + real n) / (1 + real df)" by (simp add: field_simps)
  then have "0 \<le> ln ((1 + real n) / (1 + real df))" by simp
  then show ?thesis by (simp add: smoothed_idf_def)
qed

lemma tf_idf_nonneg: "(\<And>t. 0 \<le> idf t) \<Longrightarrow> 0 \<le> tf_idf vocab idf doc t"
  by (simp add: tf_idf_def term_frequency_def)

lemma build_index_idf_nonneg: "0 \<le> idf_weights (build_index cfg kps) t"
proof -
  let ?docs = "map (\<lambda>(i, p). program_document cfg p) kps"
  have "document_frequency ?docs t \<le> length kps"
    using document_frequency_le [of ?docs t] by simp
  then show ?thesis by (simp add: build_index_def Let_def smoothed_idf_nonneg)
qed

lemma build_index_vectors:
  assumes "(i, p, pv) \<in> set (vectors (build_index cfg kps))"
  shows "(\<forall>t. 0 \<le> pv t)
    \<and> dot (vocabulary (build_index cfg kps)) pv pv \<le> 1"
proof -
  let ?docs = "map (\<lambda>(i, p). program_document cfg p) kps"
  let ?idf = "\<lambda>t. smoothed_idf (length kps) (document_frequency ?docs t)"
  have idf: "0 \<le> ?idf t" for t
    using document_frequency_le [of ?docs t] by (intro smoothed_idf_nonneg) simp
  from assms obtain q where
    "pv = normalize (remdups (concat ?docs)) (tf_idf (remdups (concat ?docs)) ?idf (program_document cfg q))"
    by (auto simp: build_index_def Let_def)
  then show ?thesis
    using idf by (simp add: build_index_def Let_def normalize_unit normalize_nonneg tf_idf_nonneg)
qed

lemma student_vector_fitted:
  "(\<forall>t. 0 \<le> student_vector cfg (build_index cfg' kps) st t)
   \<and> dot (vocabulary (build_index cfg' kps)) (student_vector cfg (build_index cfg' kps) st)
        (student_vector cfg (build_index cfg' kps) st) \<le> 1"
  by (simp add: student_vector_def normalize_unit normalize_nonneg tf_idf_nonneg
      build_index_idf_nonneg)

lemma dot_unit_bounds:
  assumes "\<forall>t. 0 \<le> u t" "\<forall>t. 0 \<le> v t" "dot vocab u u \<le> 1" "dot vocab v v \<le> 1"
  shows "0 \<le> dot vocab u v \<and> dot vocab u v \<le> 1"
proof
  show "0 \<le> dot vocab u v" using assms(1,2) by (intro dot_nonneg) auto
  have "dot vocab u v \<le> (dot vocab u u + dot vocab v v) / 2" by (rule dot_le_mean)
  with assms(3,4) show "dot vocab u v \<le> 1" by simp
qed

lemma score_all_bounds:
  assumes "(i, p, sc, ex) \<in> set (score_all cfg (build_index cfg' kps) st)"
  shows "0 \<le> sc \<and> sc \<le> 1"
proof -
  let ?idx = "build_index cfg' kps"
  from assms obtain pv where m: "(i, p, pv) \<in> set (vectors ?idx)"
    and sc: "sc = dot (vocabulary ?idx) (student_vector cfg ?idx st) pv"
    by (auto simp: score_all_def Let_def)
  show ?thesis unfolding sc
    using build_index_vectors [OF m] student_vector_fitted [of cfg cfg' kps st]
    by (intro dot_unit_bounds) auto
qed

subsection \<open>The one-program catalog, evaluated\<close>

lemma program_document_prog1: "program_document cfg1 prog1 = [''data'', ''data'']"
  by (simp add: program_document_def categorical_def tokenize_def cfg1_def prog1_def
      lower_def is_alnum_def)

lemma student_document_stu1: "student_document cfg1 stu1 = [''data'', ''math'']"
  by (simp add: student_document_def strong_subjects_def categorical_def tokenize_def
      cfg1_def stu1_def lower_def is_alnum_def)

lemma index1_eq:
  "index1 =
     \<lparr>vocabulary = [''data''],
      idf_weights = (\<lambda>t. smoothed_idf (Suc 0) (document_frequency [[''data'', ''data'']] t)),
      vectors = [(''p1'', prog1,
        normalize [''data'']
          (tf_idf [''data'']
            (\<lambda>t. smoothed_idf (Suc 0) (document_frequency [[''data'', ''data'']] t))
            [''data'', ''data'']))]\<rparr>"
  by (simp add: index1_def build_index_def program_document_prog1 Let_def)

lemma idf_data: "smoothed_idf (Suc 0) (document_frequency [[''data'', ''data'']] ''data'') = 1"
  by (simp add: smoothed_idf_def document_frequency_def)

lemma program_vector_data:
  "normalize [''data'']
     (tf_idf [''data'']
       (\<lambda>t. smoothed_idf (Suc 0) (document_frequency [[''data'', ''data'']] t))
       [''data'', ''data'']) ''data'' = 1"
  by (simp add: normalize_def l2_norm_def dot_def tf_idf_def term_frequency_def idf_data)

lemma student_vector_data: "student_vector cfg1 index1 stu1 ''data'' = 1"
  by (simp add: student_vector_def index1_eq student_document_stu1 normalize_def l2_norm_def
      dot_def tf_idf_def term_frequency_def idf_data)

lemma interests_stu1: "categorical cfg1 (st_interests stu1) = [''data'']"
  by (simp add: categorical_def tokenize_def lower_def is_alnum_def cfg1_def stu1_def)

lemma score_all_index1:
  "score_all cfg1 index1 stu1 = [(''p1'', prog1, 1, ''Matches your interest in data'')]"
proof -
  let ?pv = "normalize [''data'']
     (tf_idf [''data'']
       (\<lambda>t. smoothed_idf (Suc 0) (document_frequency [[''data'', ''data'']] t))
       [''data'', ''data''])"
  let ?sv = "student_vector cfg1 index1 stu1"
  have v: "vocabulary index1 = [''data'']" and vs: "vectors index1 = [(''p1'', prog1, ?pv)]"
    by (simp_all add: index1_eq)
  have d: "dot [''data''] ?sv ?pv = 1" "dot [''data''] ?sv ?sv = 1"
    using student_vector_data program_vector_data by (simp_all add: dot_def)
  have t: "shared_terms cfg1 [''data''] ?sv ?pv = [''data'']"
    using student_vector_data program_vector_data
    by (simp add: shared_terms_def sort_by_def cfg1_def)
  have "explain cfg1 index1 stu1 ?sv ?pv = ''Matches your interest in data''"
    by (simp add: explain_def v d t interests_stu1 Let_def)
  then show ?thesis by (simp add: score_all_def vs v d Let_def)
qed

lemma fit_prog1: "fit cfg1 [prog1] = Inr index1"
proof -
  have "keyed [] [prog1] = Inr [(''p1'', prog1)]" by (simp add: prog1_def)
  then show ?thesis by (simp add: fit_def index1_def)
qed

lemma recommend_index1:
  "recommend cfg1 index1 stu1 3 = Inr [(prog1, 1, ''Matches your interest in data'')]"
  by (simp add: recommend_def score_all_index1 sort_by_def)

lemma select_student1: "select_eq st_id ''s1'' [stu1] = [stu1]"
  by (simp add: select_eq_def stu1_def)

lemma respond_prog1:
  "respond ''s1'' [(prog1, 1, ''Matches your interest in data'')] [] (s :: fitted_index state)
     = (Inr [entry1], s\<lparr>recommendations := recommendations s @ [rec_data_of ''s1'' entry1]\<rparr>)"
  by (simp add: prog1_def entry1_def rec_data_of_def Let_def)

lemma get_recommendations_state1:
  "get_recommendations (fit cfg1) (recommend cfg1) request1 state1
     = (Inr [entry1],
        state1\<lparr>engine := index1, recommendations := [rec_data_of ''s1'' entry1]\<rparr>)"
proof -
  have sel: "select_eq st_id (student_id request1) (students state1) = stu1 # []"
    by (simp add: request1_def state1_def select_student1)
  have ps: "programs state1 \<noteq> []" by (simp add: state1_def)
  have ft: "fit cfg1 (programs state1) = Inr index1" by (simp add: state1_def fit_prog1)
  have k: "top_k request1 = 3" "student_id request1 = ''s1''" by (simp_all add: request1_def)
  show ?thesis
    unfolding get_recommendations_scoring
      [where fit_op = "fit cfg1" and recommend_op = "recommend cfg1", OF sel ps ft]
    by (simp add: k recommend_index1 respond_prog1 del: respond.simps) (simp add: state1_def)
qed

section \<open>The claims\<close>

text \<open>
  Claim C1. For every student and every \<open>top_k\<close>: when the catalog is empty, the request for
  recommendations of a student who exists answers with the empty list and raises nothing;
  the state is left as it was. The engine is not called, so this holds whatever the engine
  is and also for a \<open>top_k\<close> that the engine would reject.
\<close>

theorem get_recommendations_empty_catalog:
  "select_eq st_id (student_id request) (students s) \<noteq> [] \<Longrightarrow> programs s = [] \<Longrightarrow>
     get_recommendations fit_op recommend_op request s = (Inr [], s)"
  by (auto simp: get_recommendations_def get_recommendations_body_def split: list.splits)

theorem get_recommendations_empty_catalog_witness:
  "select_eq st_id (student_id request0) (students state0) \<noteq> []
   \<and> programs state0 = []
   \<and> get_recommendations (fit cfg1) (recommend cfg1) request0 state0 = (Inr [], state0)"
proof -
  have h1: "select_eq st_id (student_id request0) (students state0) \<noteq> []"
    by (simp add: request0_def state0_def select_student1)
  have h2: "programs state0 = []" by (simp add: state0_def)
  from get_recommendations_empty_catalog [OF h1 h2] h1 h2 show ?thesis by blast
qed

text \<open>
  Claim C2. A request that reaches scoring (the student exists, the catalog is not empty,
  \<open>fit\<close> accepts it) has re-fitted the engine on the full current catalog first: after the
  call the engine holds the index of \<open>programs s\<close>, and the outcome is the one of
  \<open>recommend\<close> on that index. In every case the outcome of a request is the same whatever
  index the engine held before the call: a stale index is never read. (The paths that end
  before scoring, an unknown student and an empty catalog, leave the engine as it is.)
\<close>

theorem get_recommendations_refits:
  "fst (get_recommendations fit_op recommend_op request (s\<lparr>engine := stale\<rparr>))
     = fst (get_recommendations fit_op recommend_op request s)
   \<and> (select_eq st_id (student_id request) (students s) \<noteq> [] \<longrightarrow> programs s \<noteq> [] \<longrightarrow>
        fit_op (programs s) = Inr idx \<longrightarrow>
        engine (snd (get_recommendations fit_op recommend_op request s)) = idx
        \<and> (case recommend_op idx (hd (select_eq st_id (student_id request) (students s)))
                   (top_k request) of
             Inl e \<Rightarrow> fst (get_recommendations fit_op recommend_op request s) = reraise (Inl e)
           | Inr recs \<Rightarrow>
               fst (get_recommendations fit_op recommend_op request s)
                 = reraise (fst (respond (student_id request) recs [] s))))"
proof -
  have a: "fst (get_recommendations fit_op recommend_op request (s\<lparr>engine := stale\<rparr>))
     = fst (get_recommendations fit_op recommend_op request s)"
    by (simp add: get_recommendations_def get_recommendations_body_def engine_fit_def
        engine_recommend_def respond_engine_irrelevant split: list.splits sum.splits prod.splits)
  have b: "engine (snd (get_recommendations fit_op recommend_op request s)) = idx
        \<and> (case recommend_op idx (hd (select_eq st_id (student_id request) (students s)))
                   (top_k request) of
             Inl e \<Rightarrow> fst (get_recommendations fit_op recommend_op request s) = reraise (Inl e)
           | Inr recs \<Rightarrow>
               fst (get_recommendations fit_op recommend_op request s)
                 = reraise (fst (respond (student_id request) recs [] s)))"
    if sel: "select_eq st_id (student_id request) (students s) \<noteq> []"
      and ps: "programs s \<noteq> []" and fit: "fit_op (programs s) = Inr idx"
  proof -
    from sel obtain student_data others
      where sd: "select_eq st_id (student_id request) (students s) = student_data # others"
      by (cases "select_eq st_id (student_id request) (students s)") auto
    show ?thesis
      unfolding get_recommendations_scoring
          [where fit_op = fit_op and recommend_op = recommend_op, OF sd ps fit]
      by (simp add: sd respond_engine_irrelevant split: sum.splits)
  qed
  from a b show ?thesis by blast
qed

theorem get_recommendations_refits_witness:
  "select_eq st_id (student_id request1) (students state1) \<noteq> []
   \<and> programs state1 \<noteq> []
   \<and> fit cfg1 (programs state1) = Inr index1
   \<and> engine (snd (get_recommendations (fit cfg1) (recommend cfg1) request1 state1)) = index1
   \<and> fst (get_recommendations (fit cfg1) (recommend cfg1) request1 (state1\<lparr>engine := index1\<rparr>))
       = fst (get_recommendations (fit cfg1) (recommend cfg1) request1 state1)"
proof -
  have h1: "select_eq st_id (student_id request1) (students state1) \<noteq> []"
    by (simp add: request1_def state1_def select_student1)
  have h2: "programs state1 \<noteq> []" by (simp add: state1_def)
  have h3: "fit cfg1 (programs state1) = Inr index1" by (simp add: state1_def fit_prog1)
  from get_recommendations_refits
    [where fit_op = "fit cfg1" and recommend_op = "recommend cfg1" and request = request1
       and s = state1 and stale = index1 and idx = index1] h1 h2 h3
  show ?thesis by blast
qed

text \<open>
  Claim C3. For a fitted index of \<open>N\<close> programs, every student and every \<open>top_k \<ge> 1\<close>,
  \<open>recommend\<close> returns exactly \<open>min(top_k, N)\<close> results.
\<close>

theorem recommend_top_k_length:
  assumes "fit cfg ps = Inr idx" and "1 \<le> k"
  shows "\<exists>rs. recommend cfg idx st k = Inr rs \<and> length rs = min (nat k) (length ps)"
proof -
  from assms(1) obtain kps where k: "keyed [] ps = Inr kps" and i: "idx = build_index cfg kps"
    by (auto simp: fit_def split: sum.splits)
  have "length (vectors idx) = length ps"
    using keyed_length [OF k] by (simp add: i length_vectors_build_index)
  with assms(2) show ?thesis
    by (simp add: recommend_def length_sort_by length_score_all)
qed

theorem recommend_top_k_length_witness:
  "fit cfg1 [prog1, prog2] = Inr (build_index cfg1 [(''p1'', prog1), (''p2'', prog2)])
   \<and> (1::int) \<le> 1
   \<and> (\<exists>rs. recommend cfg1 (build_index cfg1 [(''p1'', prog1), (''p2'', prog2)]) stu1 1 = Inr rs
         \<and> length rs = 1)"
proof -
  have "keyed [] [prog1, prog2] = Inr [(''p1'', prog1), (''p2'', prog2)]"
    by (simp add: prog1_def prog2_def)
  then have h1: "fit cfg1 [prog1, prog2]
      = Inr (build_index cfg1 [(''p1'', prog1), (''p2'', prog2)])"
    by (simp add: fit_def)
  have h2: "(1::int) \<le> 1" by simp
  from recommend_top_k_length [OF h1 h2, of stu1] h1 show ?thesis by simp
qed

text \<open>
  Claim C4. For every index and student, \<open>recommend\<close> with \<open>top_k \<le> 0\<close> signals an
  InvalidArgumentError; it returns no result sequence.
\<close>

theorem recommend_rejects_nonpositive_top_k:
  "k \<le> 0 \<Longrightarrow> recommend cfg idx st k = Inl (InvalidArgumentError ''top_k must be at least 1'')"
  by (simp add: recommend_def)

theorem recommend_rejects_nonpositive_top_k_witness:
  "(0::int) \<le> 0
   \<and> recommend cfg1 index1 stu1 0 = Inl (InvalidArgumentError ''top_k must be at least 1'')"
proof -
  have h: "(0::int) \<le> 0" by simp
  from recommend_rejects_nonpositive_top_k [OF h, of cfg1 index1 stu1] show ?thesis by simp
qed

text \<open>
  Claim C5. When \<open>fit\<close> reaches a record whose identifier an earlier record of the input
  already has (the records before it have identifiers, all different), it raises a
  ConflictError, whatever follows; no index is built, so no vector is overwritten.
\<close>

theorem fit_duplicate_identifier:
  assumes "list_all (\<lambda>q. p_id q \<noteq> None) pre" and "distinct (map p_id pre)"
    and "p_id p = Some i" and "Some i \<in> set (map p_id pre)"
  shows "fit cfg (pre @ p # rest)
           = Inl (ConflictError (''duplicate program identifier '' @ i))"
  using keyed_conflict [OF assms(1,2) _ assms(3), of "[]" rest] assms(4)
  by (simp add: fit_def)

theorem fit_duplicate_identifier_witness:
  "list_all (\<lambda>q. p_id q \<noteq> None) [prog1, prog2]
   \<and> distinct (map p_id [prog1, prog2])
   \<and> p_id (prog1\<lparr>p_name := Some ''Other''\<rparr>) = Some ''p1''
   \<and> Some ''p1'' \<in> set (map p_id [prog1, prog2])
   \<and> fit cfg1 ([prog1, prog2] @ prog1\<lparr>p_name := Some ''Other''\<rparr> # [prog2])
       = Inl (ConflictError ''duplicate program identifier p1'')"
proof -
  have h1: "list_all (\<lambda>q. p_id q \<noteq> None) [prog1, prog2]"
    by (simp add: prog1_def prog2_def)
  have h2: "distinct (map p_id [prog1, prog2])" by (simp add: prog1_def prog2_def)
  have h3: "p_id (prog1\<lparr>p_name := Some ''Other''\<rparr>) = Some ''p1''" by (simp add: prog1_def)
  have h4: "Some ''p1'' \<in> set (map p_id [prog1, prog2])" by (simp add: prog1_def)
  from fit_duplicate_identifier [OF h1 h2 h3 h4, of cfg1 "[prog2]"] h1 h2 h3 h4
  show ?thesis by simp
qed

text \<open>
  Claim C6. For every fitted index, every student and every program, the score of each
  returned recommendation lies in the closed interval from 0 to 1.
\<close>

theorem recommend_score_bounds:
  assumes "fit cfg ps = Inr idx" and "recommend cfg idx st k = Inr rs"
  shows "list_all (\<lambda>(p, sc, ex). 0 \<le> sc \<and> sc \<le> 1) rs"
proof -
  from assms(1) obtain kps where i: "idx = build_index cfg kps"
    by (auto simp: fit_def split: sum.splits)
  from assms(2) have rs: "rs = map snd (take (nat k) (sort_by ranks_before (score_all cfg idx st)))"
    by (auto simp: recommend_def split: if_splits)
  have "0 \<le> sc \<and> sc \<le> 1" if "(p, sc, ex) \<in> set rs" for p sc ex
  proof -
    from that obtain j where "(j, p, sc, ex) \<in> set (take (nat k) (sort_by ranks_before (score_all cfg idx st)))"
      unfolding rs by auto
    then have "(j, p, sc, ex) \<in> set (score_all cfg idx st)"
      using set_sort_by [of ranks_before "score_all cfg idx st"] by (auto dest: in_set_takeD)
    then show ?thesis unfolding i by (rule score_all_bounds)
  qed
  then show ?thesis by (auto simp: list_all_iff)
qed

theorem recommend_score_bounds_witness:
  "fit cfg1 [prog1] = Inr index1
   \<and> recommend cfg1 index1 stu1 3 = Inr [(prog1, 1, ''Matches your interest in data'')]
   \<and> list_all (\<lambda>(p, sc, ex). 0 \<le> sc \<and> sc \<le> 1)
        [(prog1, 1::real, ''Matches your interest in data'')]"
proof -
  have h1: "fit cfg1 [prog1] = Inr index1" by (rule fit_prog1)
  have h2: "recommend cfg1 index1 stu1 3 = Inr [(prog1, 1, ''Matches your interest in data'')]"
    by (rule recommend_index1)
  from recommend_score_bounds [OF h1 h2] h1 h2 show ?thesis by (intro conjI)
qed

text \<open>
  Claim C7. Every entry of a successful response carries the data of the program the engine
  matched: identifier, name, description, tags and skills (the empty list where the program
  has none), with the score and the explanation the engine gave. The entries are those of
  the triples of the engine, in order.
\<close>

theorem get_recommendations_carries_display_data:
  assumes "get_recommendations fit_op recommend_op request s = (Inr response, s')"
  shows "(programs s = [] \<and> response = [])
    \<or> (\<exists>idx recs. fit_op (programs s) = Inr idx
          \<and> recommend_op idx (hd (select_eq st_id (student_id request) (students s)))
                (top_k request) = Inr recs
          \<and> list_all2 carries recs response)"
  using get_recommendations_ok [OF assms] by (auto dest!: respond_ok)

theorem get_recommendations_carries_display_data_witness:
  "get_recommendations (fit cfg1) (recommend cfg1) request1 state1
     = (Inr [entry1], state1\<lparr>engine := index1, recommendations := [rec_data_of ''s1'' entry1]\<rparr>)
   \<and> (\<exists>recs. recommend cfg1 index1 stu1 3 = Inr recs \<and> list_all2 carries recs [entry1])"
proof -
  have ps: "programs state1 \<noteq> []" by (simp add: state1_def)
  have ft: "fit cfg1 (programs state1) = Inr index1" by (simp add: state1_def fit_prog1)
  have hd: "hd (select_eq st_id (student_id request1) (students state1)) = stu1"
    by (simp add: request1_def state1_def select_student1)
  have k: "top_k request1 = 3" by (simp add: request1_def)
  from get_recommendations_carries_display_data [OF get_recommendations_state1] ps ft
  have "\<exists>recs. recommend cfg1 index1 stu1 3 = Inr recs \<and> list_all2 carries recs [entry1]"
    by (auto simp: hd k)
  with get_recommendations_state1 show ?thesis by blast
qed

text \<open>
  Claim C8. A feedback submission with a rating below 1 or above 5 fails with the
  bad-request error, and the state (the table \<open>feedback\<close> with it) is unchanged: the check
  comes before the insert.
\<close>

theorem submit_feedback_rating_out_of_range:
  "rating fb = Some r \<Longrightarrow> r < 1 \<or> r > 5 \<Longrightarrow>
     submit_feedback sid fb s = (Inl (HTTPException 400 ''Rating must be between 1 and 5''), s)"
  by (simp add: submit_feedback_def)

theorem submit_feedback_rating_out_of_range_witness:
  "rating feedback6 = Some 6 \<and> ((6::int) < 1 \<or> (6::int) > 5)
   \<and> submit_feedback ''s1'' feedback6 state1
       = (Inl (HTTPException 400 ''Rating must be between 1 and 5''), state1)"
proof -
  have h1: "rating feedback6 = Some 6" by (simp add: feedback6_def)
  have h2: "(6::int) < 1 \<or> (6::int) > 5" by simp
  from submit_feedback_rating_out_of_range [OF h1 h2, of "''s1''" state1] h1 h2
  show ?thesis by blast
qed

text \<open>
  Claim C9. Creating a student whose email an existing student has fails with the
  bad-request error before any insert: the state is unchanged. So if no two students share
  an email before the call, none do after it.
\<close>

theorem create_student_existing_email:
  "(email student \<in> st_email ` set (students s) \<longrightarrow>
      create_student new_id student s
        = (Inl (HTTPException 400 ''Student with this email already exists''), s))
   \<and> (distinct (map st_email (students s)) \<longrightarrow>
        distinct (map st_email (students (snd (create_student new_id student s)))))"
  by (auto simp: create_student_def select_eq_def Let_def filter_empty_conv)

theorem create_student_existing_email_witness:
  "email profile1 \<in> st_email ` set (students state1)
   \<and> create_student ''s2'' profile1 state1
       = (Inl (HTTPException 400 ''Student with this email already exists''), state1)
   \<and> distinct (map st_email (students state1))
   \<and> distinct (map st_email (students (snd (create_student ''s2'' profile1 state1))))"
proof -
  have h1: "email profile1 \<in> st_email ` set (students state1)"
    by (simp add: profile1_def state1_def stu1_def)
  have h2: "distinct (map st_email (students state1))" by (simp add: state1_def)
  from create_student_existing_email [of profile1 state1 "''s2''"] h1 h2
  show ?thesis by blast
qed

text \<open>
  Claim C10. After a successful request for recommendations the table \<open>recommendations\<close>
  holds, after the rows it had, exactly one new row per entry of the response, in the order
  of the response, with the student, the program, the score and the explanation of that
  entry. Each row is inserted before its entry is appended to the response.
\<close>

theorem get_recommendations_persists_results:
  assumes "get_recommendations fit_op recommend_op request s = (Inr response, s')"
  shows "recommendations s'
           = recommendations s @ map (rec_data_of (student_id request)) response"
  using get_recommendations_ok [OF assms] by (auto dest!: respond_ok)

theorem get_recommendations_persists_results_witness:
  "get_recommendations (fit cfg1) (recommend cfg1) request1 state1
     = (Inr [entry1], state1\<lparr>engine := index1, recommendations := [rec_data_of ''s1'' entry1]\<rparr>)
   \<and> recommendations (state1\<lparr>engine := index1, recommendations := [rec_data_of ''s1'' entry1]\<rparr>)
       = recommendations state1 @ map (rec_data_of (student_id request1)) [entry1]"
  using get_recommendations_persists_results [OF get_recommendations_state1]
    get_recommendations_state1
  by blast

end
